theory Spec2Isabelle
  imports Main "HOL-Library.Sublist"
begin

section \<open>Text\<close>

text \<open>
  The job tracker keeps its records in one SQLite table and has two front ends over it:
  the text menu of \<^verbatim>\<open>Job_tracker.py\<close> and the dashboard of \<^verbatim>\<open>app.py\<close>.
  Python's \<^verbatim>\<open>str\<close> is modelled as \<^typ>\<open>string\<close>, a character being a code point
  below 256: ASCII and the Latin-1 supplement. Text with code points above that is
  outside the model. The program folds text to lower case in two ways, with Python's
  \<^verbatim>\<open>str.lower\<close> and with SQLite's \<^verbatim>\<open>LOWER\<close>; they are two functions here,
  \<open>lower\<close> and \<open>LOWER\<close>, as they are two functions there.
\<close>

text \<open>\<^verbatim>\<open>str.strip()\<close>: the characters below 256 for which \<^verbatim>\<open>str.isspace\<close> holds
  are tab, line feed, vertical tab, form feed, carriage return, the four separators
  0x1C to 0x1F, the space, the next-line character 0x85 and the no-break space 0xA0.\<close>

definition is_space :: "char \<Rightarrow> bool" where
  "is_space c = (c \<in> set [CHR 0x09, CHR 0x0A, CHR 0x0B, CHR 0x0C, CHR 0x0D,
                         CHR 0x1C, CHR 0x1D, CHR 0x1E, CHR 0x1F, CHR '' '',
                         CHR 0x85, CHR 0xA0])"

definition strip :: "string \<Rightarrow> string" where
  "strip s = rev (dropWhile is_space (rev (dropWhile is_space s)))"

text \<open>
  Folding to lower case. The capital letters below 256 are A to Z and the thirty
  letters 0xC0 to 0xDE without the multiplication sign 0xD7; each has its small letter
  32 code points further on. \<open>translate\<close> replaces a character of the first list by
  the character at the same place of the second and keeps every other character.
\<close>

definition ascii_upper :: string where
  "ascii_upper = ''ABCDEFGHIJKLMNOPQRSTUVWXYZ''"

definition ascii_lower :: string where
  "ascii_lower = ''abcdefghijklmnopqrstuvwxyz''"

definition latin1_upper :: string where
  "latin1_upper =
     [CHR 0xC0, CHR 0xC1, CHR 0xC2, CHR 0xC3, CHR 0xC4, CHR 0xC5, CHR 0xC6,
      CHR 0xC7, CHR 0xC8, CHR 0xC9, CHR 0xCA, CHR 0xCB, CHR 0xCC, CHR 0xCD,
      CHR 0xCE, CHR 0xCF, CHR 0xD0, CHR 0xD1, CHR 0xD2, CHR 0xD3, CHR 0xD4,
      CHR 0xD5, CHR 0xD6, CHR 0xD8, CHR 0xD9, CHR 0xDA, CHR 0xDB, CHR 0xDC,
      CHR 0xDD, CHR 0xDE]"

definition latin1_lower :: string where
  "latin1_lower =
     [CHR 0xE0, CHR 0xE1, CHR 0xE2, CHR 0xE3, CHR 0xE4, CHR 0xE5, CHR 0xE6,
      CHR 0xE7, CHR 0xE8, CHR 0xE9, CHR 0xEA, CHR 0xEB, CHR 0xEC, CHR 0xED,
      CHR 0xEE, CHR 0xEF, CHR 0xF0, CHR 0xF1, CHR 0xF2, CHR 0xF3, CHR 0xF4,
      CHR 0xF5, CHR 0xF6, CHR 0xF8, CHR 0xF9, CHR 0xFA, CHR 0xFB, CHR 0xFC,
      CHR 0xFD, CHR 0xFE]"

definition translate :: "string \<Rightarrow> string \<Rightarrow> char \<Rightarrow> char" where
  "translate ups lows c = (case map_of (zip ups lows) c of Some l \<Rightarrow> l | None \<Rightarrow> c)"

text \<open>Python's \<^verbatim>\<open>str.lower()\<close> folds every capital letter.\<close>

definition lower_char :: "char \<Rightarrow> char" where
  "lower_char c = translate (ascii_upper @ latin1_upper) (ascii_lower @ latin1_lower) c"

definition lower :: "string \<Rightarrow> string" where
  "lower s = map lower_char s"

text \<open>SQLite's \<^verbatim>\<open>LOWER(X)\<close> folds the letters A to Z only and leaves every
  character beyond ASCII as it is.\<close>

definition LOWER_char :: "char \<Rightarrow> char" where
  "LOWER_char c = translate ascii_upper ascii_lower c"

definition LOWER :: "string \<Rightarrow> string" where
  "LOWER s = map LOWER_char s"

text \<open>\<^verbatim>\<open>str.isdigit()\<close> and \<^verbatim>\<open>int(...)\<close> on a string of decimal digits.
  (\<^verbatim>\<open>str.isdigit\<close> holds of the superscript digits 0xB2, 0xB3 and 0xB9 as well;
  on them \<^verbatim>\<open>int\<close> raises \<^verbatim>\<open>ValueError\<close> and the menu stops before any statement
  runs. The model answers there that the id is invalid; the store is unchanged in both.)\<close>

definition is_digit_char :: "char \<Rightarrow> bool" where
  "is_digit_char c = (let n = of_char c :: nat in 48 \<le> n \<and> n \<le> 57)"

definition isdigit :: "string \<Rightarrow> bool" where
  "isdigit s = (s \<noteq> [] \<and> list_all is_digit_char s)"

definition int_of :: "string \<Rightarrow> nat" where
  "int_of s = foldl (\<lambda>a c. 10 * a + (of_char c - 48)) 0 s"

text \<open>
  The operator \<^verbatim>\<open>LIKE\<close> of SQLite, pattern first: \<^verbatim>\<open>%\<close> stands for any run of
  characters, \<^verbatim>\<open>_\<close> for any one character, and every other character of the pattern
  is compared without regard to the case of the letters A to Z. No escape character is set
  by the queries of this program.
\<close>

fun like :: "string \<Rightarrow> string \<Rightarrow> bool" where
  "like [] [] = True"
| "like [] (c # cs) = False"
| "like (p # ps) [] = (p = CHR ''%'' \<and> like ps [])"
| "like (p # ps) (c # cs) =
     (if p = CHR ''%'' then like ps (c # cs) \<or> like (p # ps) cs
      else (p = CHR ''_'' \<or> LOWER_char p = LOWER_char c) \<and> like ps cs)"

section \<open>The table \<^verbatim>\<open>jobs\<close>\<close>

text \<open>
  A value of Python's \<^verbatim>\<open>float\<close> is a number of some type \<open>'f\<close> or not-a-number.
  The builtin \<^verbatim>\<open>float(s)\<close> is a parameter \<open>float\<close> of the operations that call it,
  of type \<open>string \<Rightarrow> 'f pyfloat option\<close>: \<open>None\<close> is the \<^verbatim>\<open>ValueError\<close> it raises
  on text that is no number. A column of SQLite keeps a bound not-a-number as
  \<^verbatim>\<open>NULL\<close>; \<open>bind_real\<close> is the binding of a Python value (\<^verbatim>\<open>None\<close> or a float)
  to the column \<^verbatim>\<open>salary REAL\<close>, and \<open>read_real\<close> is the way back.
\<close>

datatype 'f pyfloat = Num 'f | NaN

fun bind_real :: "'f pyfloat option \<Rightarrow> 'f option" where
  "bind_real None = None"
| "bind_real (Some NaN) = None"
| "bind_real (Some (Num x)) = Some x"

definition read_real :: "'f option \<Rightarrow> 'f pyfloat option" where
  "read_real v = map_option Num v"

text \<open>
  One row of \<^verbatim>\<open>jobs\<close>. The columns \<^verbatim>\<open>company\<close> and \<^verbatim>\<open>role\<close> are
  \<^verbatim>\<open>TEXT NOT NULL\<close>; in every other column \<open>None\<close> is \<^verbatim>\<open>NULL\<close>. The
  column \<^verbatim>\<open>id\<close> is \<open>job_id\<close> here.
\<close>

record 'f job =
  job_id :: nat
  company :: string
  role :: string
  location :: "string option"
  applied_date :: "string option"
  status :: "string option"
  salary :: "'f option"
  "notes" :: "string option"

text \<open>
  The database file: the rows of the table in the order of their row ids, which is the
  order a scan of the table reads them in, and the entry of \<^verbatim>\<open>sqlite_sequence\<close> that
  \<^verbatim>\<open>AUTOINCREMENT\<close> keeps (the largest id handed out so far). Ids are natural
  numbers; the bound of 64 bits on a row id is not modelled.
\<close>

record 'f database =
  jobs :: "'f job list"
  sqlite_sequence :: nat

text \<open>\<^verbatim>\<open>create_table\<close> on a new file: \<^verbatim>\<open>CREATE TABLE IF NOT EXISTS\<close> leaves
  the table empty. On a file that has the table it changes nothing.\<close>

definition create_table :: "'f database" where
  "create_table = \<lparr>jobs = [], sqlite_sequence = 0\<rparr>"

text \<open>\<^verbatim>\<open>INTEGER PRIMARY KEY AUTOINCREMENT\<close>: one more than the largest id the table
  has ever held.\<close>

definition next_rowid :: "'f database \<Rightarrow> nat" where
  "next_rowid db = Suc (max (sqlite_sequence db) (foldr max (map job_id (jobs db)) 0))"

text \<open>\<^verbatim>\<open>INSERT INTO jobs (company, role, location, applied_date, status, salary, notes)
  VALUES (?, ?, ?, ?, ?, ?, ?)\<close>, the statement of \<^verbatim>\<open>insert_job\<close> in \<^verbatim>\<open>app.py\<close>
  and, inline, of \<^verbatim>\<open>add_job\<close> in \<^verbatim>\<open>Job_tracker.py\<close>.\<close>

definition insert_job ::
  "'f database \<Rightarrow> string \<Rightarrow> string \<Rightarrow> string option \<Rightarrow> string option \<Rightarrow> string option \<Rightarrow>
   'f pyfloat option \<Rightarrow> string option \<Rightarrow> 'f database" where
  "insert_job db company' role' location' applied_date' status' salary' notes' =
     (let new_id = next_rowid db in
      \<lparr>jobs = jobs db @
         [\<lparr>job_id = new_id, company = company', role = role', location = location',
           applied_date = applied_date', status = status', salary = bind_real salary',
           notes = notes'\<rparr>],
       sqlite_sequence = new_id\<rparr>)"

text \<open>\<^verbatim>\<open>SELECT id, company, role, location, applied_date, status, salary, notes
  FROM jobs WHERE id = ?\<close> and \<^verbatim>\<open>fetchone()\<close>.\<close>

definition get_job_by_id :: "'f database \<Rightarrow> nat \<Rightarrow> 'f job option" where
  "get_job_by_id db i = find (\<lambda>j. job_id j = i) (jobs db)"

text \<open>\<^verbatim>\<open>UPDATE jobs SET status = ?, applied_date = ?, salary = ?, notes = ? WHERE id = ?\<close>,
  the statement of \<^verbatim>\<open>update_job\<close> in \<^verbatim>\<open>app.py\<close> and, inline, of
  \<^verbatim>\<open>update_job\<close> in \<^verbatim>\<open>Job_tracker.py\<close>.\<close>

definition app_update_job ::
  "'f database \<Rightarrow> nat \<Rightarrow> string option \<Rightarrow> string option \<Rightarrow> 'f pyfloat option \<Rightarrow>
   string option \<Rightarrow> 'f database" where
  "app_update_job db i status' applied_date' salary' notes' =
     db\<lparr>jobs :=
          map (\<lambda>j. if job_id j = i
                    then j\<lparr>status := status', applied_date := applied_date',
                           salary := bind_real salary', notes := notes'\<rparr>
                    else j)
              (jobs db)\<rparr>"

text \<open>\<^verbatim>\<open>DELETE FROM jobs WHERE id = ?\<close>.\<close>

definition app_delete_job :: "'f database \<Rightarrow> nat \<Rightarrow> 'f database" where
  "app_delete_job db i = db\<lparr>jobs := filter (\<lambda>j. job_id j \<noteq> i) (jobs db)\<rparr>"

text \<open>\<^verbatim>\<open>ORDER BY id DESC\<close>.\<close>

definition order_by_id_desc :: "'f job list \<Rightarrow> 'f job list" where
  "order_by_id_desc rows = rev (sort_key job_id rows)"

definition fetch_all_jobs :: "'f database \<Rightarrow> 'f job list" where
  "fetch_all_jobs db = order_by_id_desc (jobs db)"

section \<open>Creating and updating\<close>

text \<open>What an operation tells its user: the lines the menu prints, and the
  \<^verbatim>\<open>st.error\<close>, \<^verbatim>\<open>st.warning\<close>, \<^verbatim>\<open>st.success\<close> and \<^verbatim>\<open>st.info\<close> boxes of
  the dashboard.\<close>

datatype message =
    CompanyRoleRequired
  | InvalidSalarySavedEmpty
  | JobSaved
  | InvalidId
  | NoJobFound nat
  | InvalidSalaryKeptOld
  | JobUpdated
  | NoJobsYet
  | SelectedJobNotFound
  | JobDeleted

text \<open>\<^verbatim>\<open>add_job\<close> of \<^verbatim>\<open>Job_tracker.py\<close>; its arguments after the database are the
  seven lines the user types.\<close>

definition add_job ::
  "(string \<Rightarrow> 'f pyfloat option) \<Rightarrow> 'f database \<Rightarrow> string \<Rightarrow> string \<Rightarrow> string \<Rightarrow> string \<Rightarrow>
   string \<Rightarrow> string \<Rightarrow> string \<Rightarrow> 'f database \<times> message list" where
  "add_job float db company_in role_in location_in applied_date_in status_in salary_in notes_in =
     (let company' = strip company_in;
          role' = strip role_in;
          location' = strip location_in;
          applied_date' = strip applied_date_in;
          status' = strip status_in;
          salary_input = strip salary_in;
          notes' = strip notes_in
      in if company' = [] \<or> role' = [] then (db, [CompanyRoleRequired])
         else
           let (salary', warned) =
                 (if salary_input = [] then (None, [])
                  else case float salary_input of
                         Some v \<Rightarrow> (Some v, [])
                       | None \<Rightarrow> (None, [InvalidSalarySavedEmpty]))
           in (insert_job db company' role' (Some location') (Some applied_date')
                 (Some status') salary' (Some notes'),
               warned @ [JobSaved]))"

text \<open>\<^verbatim>\<open>page_add_job\<close> of \<^verbatim>\<open>app.py\<close>: the values of the form and whether it was
  submitted.\<close>

definition page_add_job ::
  "(string \<Rightarrow> 'f pyfloat option) \<Rightarrow> 'f database \<Rightarrow> bool \<Rightarrow> string \<Rightarrow> string \<Rightarrow> string \<Rightarrow>
   string \<Rightarrow> string \<Rightarrow> string \<Rightarrow> string \<Rightarrow> 'f database \<times> message list" where
  "page_add_job float db submitted company' role' location' applied_date' status' salary_input
     notes' =
     (if submitted then
        if strip company' = [] \<or> strip role' = [] then (db, [CompanyRoleRequired])
        else
          let (salary', warned) =
                (if strip salary_input = [] then (None, [])
                 else case float (strip salary_input) of
                        Some v \<Rightarrow> (Some v, [])
                      | None \<Rightarrow> (None, [InvalidSalarySavedEmpty]))
          in (insert_job db (strip company') (strip role') (Some (strip location'))
                (Some (strip applied_date')) (Some (strip status')) salary'
                (Some (strip notes')),
              warned @ [JobSaved])
      else (db, []))"

text \<open>\<^verbatim>\<open>update_job\<close> of \<^verbatim>\<open>Job_tracker.py\<close>: the id the user types, then the four
  lines asked for once the job is found.\<close>

definition update_job ::
  "(string \<Rightarrow> 'f pyfloat option) \<Rightarrow> 'f database \<Rightarrow> string \<Rightarrow> string \<Rightarrow> string \<Rightarrow> string \<Rightarrow>
   string \<Rightarrow> 'f database \<times> message list" where
  "update_job float db job_id_in status_in date_in salary_in notes_in =
     (let job_id_input = strip job_id_in
      in if \<not> isdigit job_id_input then (db, [InvalidId])
         else
           let i = int_of job_id_input
           in case get_job_by_id db i of
                None \<Rightarrow> (db, [NoJobFound i])
              | Some job \<Rightarrow>
                  let new_status = (if strip status_in = [] then status job
                                    else Some (strip status_in));
                      new_date = (if strip date_in = [] then applied_date job
                                  else Some (strip date_in));
                      new_notes = (if strip notes_in = [] then notes job
                                   else Some (strip notes_in));
                      new_salary_input = strip salary_in;
                      (new_salary, warned) =
                        (if new_salary_input = [] then (read_real (salary job), [])
                         else case float new_salary_input of
                                Some v \<Rightarrow> (Some v, [])
                              | None \<Rightarrow> (read_real (salary job), [InvalidSalaryKeptOld]))
                  in (app_update_job db i new_status new_date new_salary new_notes,
                      warned @ [JobUpdated]))"

text \<open>\<^verbatim>\<open>page_manage_jobs\<close> of \<^verbatim>\<open>app.py\<close>: the id chosen in the select box, the
  values of the four widgets and the button that was pressed.\<close>

datatype button = SaveChanges | DeleteThisJob | NoButton

definition page_manage_jobs ::
  "(string \<Rightarrow> 'f pyfloat option) \<Rightarrow> 'f database \<Rightarrow> nat \<Rightarrow> string \<Rightarrow> string \<Rightarrow> string \<Rightarrow>
   string \<Rightarrow> button \<Rightarrow> 'f database \<times> message list" where
  "page_manage_jobs float db selected_id new_status new_date new_salary_input new_notes pressed =
     (if fetch_all_jobs db = [] then (db, [NoJobsYet])
      else case get_job_by_id db selected_id of
             None \<Rightarrow> (db, [SelectedJobNotFound])
           | Some job \<Rightarrow>
               (case pressed of
                  SaveChanges \<Rightarrow>
                    let (new_salary, warned) =
                          (if strip new_salary_input = [] then (None, [])
                           else case float (strip new_salary_input) of
                                  Some v \<Rightarrow> (Some v, [])
                                | None \<Rightarrow> (read_real (salary job), [InvalidSalaryKeptOld]))
                    in (app_update_job db (job_id job) (Some new_status)
                          (Some (strip new_date)) new_salary (Some (strip new_notes)),
                        warned @ [JobUpdated])
                | DeleteThisJob \<Rightarrow> (app_delete_job db (job_id job), [JobDeleted])
                | NoButton \<Rightarrow> (db, [])))"

section \<open>Listing, filtering and searching\<close>

text \<open>The seven columns the listings select: every column but \<^verbatim>\<open>notes\<close>.\<close>

type_synonym 'f listing =
  "nat \<times> string \<times> string \<times> string option \<times> string option \<times> string option \<times> 'f option"

definition listing_of :: "'f job \<Rightarrow> 'f listing" where
  "listing_of j =
     (job_id j, company j, role j, location j, applied_date j, status j, salary j)"

text \<open>\<^verbatim>\<open>view_all_jobs\<close>: the rows it fetches with \<^verbatim>\<open>ORDER BY id DESC\<close> and then
  prints (an empty list prints that there are no applications yet).\<close>

definition view_all_jobs :: "'f database \<Rightarrow> 'f listing list" where
  "view_all_jobs db = map listing_of (order_by_id_desc (jobs db))"

text \<open>
  \<^verbatim>\<open>view_by_status\<close>: \<open>None\<close> when no status was entered and the function goes
  back to the menu without a query, else the rows fetched by
  \<^verbatim>\<open>SELECT ... FROM jobs WHERE LOWER(status) = ?\<close>, the parameter being the
  query folded by \<^verbatim>\<open>status_input.lower()\<close>. The statement has no
  \<^verbatim>\<open>ORDER BY\<close>, so the rows come as the scan of the table reads them. A
  \<^verbatim>\<open>NULL\<close> status makes the comparison \<^verbatim>\<open>NULL\<close>, which selects nothing.
\<close>

definition view_by_status :: "'f database \<Rightarrow> string \<Rightarrow> 'f listing list option" where
  "view_by_status db status_in =
     (let status_input = strip status_in
      in if status_input = [] then None
         else
           let status_clean = lower status_input
           in Some (map listing_of
                (filter (\<lambda>j. case status j of None \<Rightarrow> False
                                             | Some s \<Rightarrow> LOWER s = status_clean)
                   (jobs db))))"

text \<open>The condition of \<^verbatim>\<open>search_jobs\<close>, \<^verbatim>\<open>WHERE LOWER(company) LIKE ? OR
  LOWER(role) LIKE ? OR LOWER(location) LIKE ?\<close>, the same pattern bound three times.
  On a \<^verbatim>\<open>NULL\<close> location the third comparison is \<^verbatim>\<open>NULL\<close>, which does not
  select the row.\<close>

definition search_where :: "string \<Rightarrow> 'f job \<Rightarrow> bool" where
  "search_where like_pattern j \<longleftrightarrow>
     like like_pattern (LOWER (company j))
     \<or> like like_pattern (LOWER (role j))
     \<or> (case location j of None \<Rightarrow> False | Some l \<Rightarrow> like like_pattern (LOWER l))"

text \<open>
  \<^verbatim>\<open>search_jobs\<close>: \<open>None\<close> when no keyword was entered, else the rows fetched
  with the pattern \<^verbatim>\<open>%keyword%\<close> and \<^verbatim>\<open>ORDER BY id DESC\<close>, the keyword being
  the input folded by \<^verbatim>\<open>.strip().lower()\<close>.
\<close>

definition search_jobs :: "'f database \<Rightarrow> string \<Rightarrow> 'f listing list option" where
  "search_jobs db keyword_in =
     (let keyword = lower (strip keyword_in)
      in if keyword = [] then None
         else
           let like_pattern = ''%'' @ keyword @ ''%''
           in Some (map listing_of
                (order_by_id_desc (filter (search_where like_pattern) (jobs db)))))"

text \<open>\<^verbatim>\<open>export_to_csv\<close>: the rows written under the header, all eight columns by
  \<^verbatim>\<open>ORDER BY id DESC\<close>; \<open>None\<close> when there is nothing to export. The name of the
  file and its bytes are not modelled.\<close>

definition export_to_csv :: "'f database \<Rightarrow> 'f job list option" where
  "export_to_csv db =
     (let rows = order_by_id_desc (jobs db)
      in if rows = [] then None else Some rows)"

section \<open>Statistics\<close>

text \<open>\<^verbatim>\<open>SELECT status, COUNT(*) FROM jobs GROUP BY status\<close>: one row for each
  status value of the table, \<^verbatim>\<open>NULL\<close> being one value. SQL leaves the order of
  the groups open.\<close>

definition status_counts :: "'f database \<Rightarrow> (string option \<times> nat) list" where
  "status_counts db =
     map (\<lambda>k. (k, length (filter (\<lambda>j. status j = k) (jobs db))))
       (remdups (map status (jobs db)))"

text \<open>\<^verbatim>\<open>label = status if status else "Unknown"\<close>: \<^verbatim>\<open>None\<close> and the empty string
  are both false in Python.\<close>

definition status_label :: "string option \<Rightarrow> string" where
  "status_label s = (case s of None \<Rightarrow> ''Unknown''
                             | Some t \<Rightarrow> if t = [] then ''Unknown'' else t)"

text \<open>\<^verbatim>\<open>show_stats\<close>: the total it prints and the lines under \<^verbatim>\<open>By status\<close>,
  which are printed only when the total is not zero. The lines on the top companies
  are left out.\<close>

definition show_stats :: "'f database \<Rightarrow> nat \<times> (string \<times> nat) list" where
  "show_stats db =
     (let total = length (jobs db)
      in if total = 0 then (total, [])
         else (total, map (\<lambda>(s, count). (status_label s, count)) (status_counts db)))"

section \<open>Sample data\<close>

text \<open>An instance of the parameter \<open>float\<close> for the examples: it agrees with Python's
  \<^verbatim>\<open>float\<close> on the tokens the examples use.\<close>

definition float_ex :: "string \<Rightarrow> int pyfloat option" where
  "float_ex t = (if t = ''50000'' then Some (Num 50000)
                 else if t = ''nan'' then Some NaN
                 else None)"

text \<open>A database with one job, and with a second one, both entered at the menu.\<close>

definition acme_db :: "int database" where
  "acme_db = fst (add_job float_ex create_table ''  Acme Corp'' ''Engineer '' ''Pune''
                    ''2025-11-30'' ''Interview'' ''50000'' '''')"

definition two_db :: "int database" where
  "two_db = fst (add_job float_ex acme_db ''Globex'' ''Clerk'' '''' '''' ''interview'' '''' '''')"

text \<open>A database with one job whose status, typed at the menu, ends in the capital E
  with acute accent, the code point 0xC9.\<close>

definition refuse_db :: "int database" where
  "refuse_db = fst (add_job float_ex create_table ''Acme Corp'' ''Engineer'' '''' ''''
                      (''REFUS'' @ [CHR 0xC9]) '''' '''')"

text \<open>The three records of the specification's scenario; the third has no status.\<close>

definition scenario_db :: "int database" where
  "scenario_db =
     \<lparr>jobs =
        [\<lparr>job_id = 1, company = ''Acme'', role = ''Engineer'', location = None,
          applied_date = None, status = Some ''Applied'', salary = None, notes = None\<rparr>,
         \<lparr>job_id = 2, company = ''Acme'', role = ''Manager'', location = None,
          applied_date = None, status = Some ''Offer'', salary = None, notes = None\<rparr>,
         \<lparr>job_id = 3, company = ''Globex'', role = ''Clerk'', location = None,
          applied_date = None, status = None, salary = None, notes = None\<rparr>],
      sqlite_sequence = 3\<rparr>"

section \<open>Facts about the statements\<close>

subsection \<open>Inserting, reading and updating\<close>

lemma bind_read_real: "bind_real (read_real v) = v"
  by (cases v) (simp_all add: read_real_def)

lemma foldr_max_upper: "x \<in> set xs \<Longrightarrow> x \<le> foldr max xs (0::nat)"
  by (induction xs) (auto simp: max_def)

lemma job_id_below_next: "j \<in> set (jobs db) \<Longrightarrow> job_id j < next_rowid db"
proof -
  assume "j \<in> set (jobs db)"
  then have "job_id j \<le> foldr max (map job_id (jobs db)) 0"
    by (intro foldr_max_upper) simp
  then show ?thesis
    by (simp add: next_rowid_def)
qed

lemma find_append_fresh:
  "\<forall>x \<in> set xs. \<not> P x \<Longrightarrow> P y \<Longrightarrow> find P (xs @ [y]) = Some y"
  by (induction xs) auto

text \<open>The sample data, evaluated.\<close>

lemma strip_examples:
  "strip '''' = []" "strip ''   '' = []" "strip ''  Acme Corp'' = ''Acme Corp''"
  "strip ''Engineer '' = ''Engineer''" "strip ''Pune'' = ''Pune''"
  "strip ''2025-11-30'' = ''2025-11-30''" "strip ''Interview'' = ''Interview''"
  "strip ''50000'' = ''50000''" "strip ''abc'' = ''abc''" "strip ''1'' = ''1''"
  "strip ''Globex'' = ''Globex''" "strip ''Clerk'' = ''Clerk''"
  "strip ''Offer'' = ''Offer''"
  by (simp_all add: strip_def is_space_def)

lemma next_rowid_create_table: "next_rowid create_table = 1"
  by (simp add: next_rowid_def create_table_def)

lemma acme_db_rows:
  "acme_db = \<lparr>jobs = [\<lparr>job_id = 1, company = ''Acme Corp'', role = ''Engineer'',
                        location = Some ''Pune'', applied_date = Some ''2025-11-30'',
                        status = Some ''Interview'', salary = Some 50000,
                        notes = Some ''''\<rparr>],
              sqlite_sequence = 1\<rparr>"
  by (simp add: acme_db_def add_job_def insert_job_def Let_def strip_examples float_ex_def
      next_rowid_create_table)
     (simp add: create_table_def)

lemma refuse_db_rows:
  "refuse_db = \<lparr>jobs = [\<lparr>job_id = 1, company = ''Acme Corp'', role = ''Engineer'',
                          location = Some '''', applied_date = Some '''',
                          status = Some (''REFUS'' @ [CHR 0xC9]), salary = None,
                          notes = Some ''''\<rparr>],
                sqlite_sequence = 1\<rparr>"
proof -
  have "strip ''Acme Corp'' = ''Acme Corp''" "strip ''Engineer'' = ''Engineer''"
      "strip (''REFUS'' @ [CHR 0xC9]) = ''REFUS'' @ [CHR 0xC9]"
    by (simp_all add: strip_def is_space_def)
  then show ?thesis
    by (simp add: refuse_db_def add_job_def insert_job_def Let_def strip_examples
        next_rowid_create_table)
       (simp add: create_table_def)
qed

text \<open>The dashboard's form, once submitted, does what the menu's \<open>add_job\<close> does.\<close>

lemma page_add_job_submitted:
  "page_add_job float db True c r l d s sal n = add_job float db c r l d s sal n"
  by (simp add: page_add_job_def add_job_def Let_def)

lemma get_job_by_id_SomeD:
  "get_job_by_id db k = Some j \<Longrightarrow> job_id j = k \<and> j \<in> set (jobs db)"
  by (auto simp: get_job_by_id_def find_Some_iff)

lemma get_job_by_id_insert_job:
  "get_job_by_id (insert_job db c r l d s sal n) (next_rowid db) =
     Some \<lparr>job_id = next_rowid db, company = c, role = r, location = l, applied_date = d,
           status = s, salary = bind_real sal, notes = n\<rparr>"
proof -
  have "\<forall>j \<in> set (jobs db). \<not> job_id j = next_rowid db"
    using job_id_below_next [of _ db] by fastforce
  then show ?thesis
    by (simp add: get_job_by_id_def insert_job_def Let_def find_append_fresh)
qed

lemma find_map_update:
  assumes "\<And>j. job_id (g j) = job_id j"
  shows "find (\<lambda>j. job_id j = k') (map (\<lambda>j. if job_id j = k then g j else j) xs) =
         map_option (\<lambda>j. if job_id j = k then g j else j) (find (\<lambda>j. job_id j = k') xs)"
  using assms by (induction xs) auto

lemma get_job_by_id_app_update_job:
  "get_job_by_id (app_update_job db k s d sal n) k' =
     map_option (\<lambda>j. if job_id j = k
                      then j\<lparr>status := s, applied_date := d, salary := bind_real sal, notes := n\<rparr>
                      else j)
       (get_job_by_id db k')"
  unfolding get_job_by_id_def app_update_job_def
  by (simp add: find_map_update)

lemma fetch_all_jobs_Nil: "fetch_all_jobs db = [] \<longleftrightarrow> jobs db = []"
  by (simp add: fetch_all_jobs_def order_by_id_desc_def flip: length_0_conv del: length_0_conv)

text \<open>What the two updates do to a job that is found.\<close>

lemma update_job_found:
  assumes "isdigit (strip i)" and "get_job_by_id db (int_of (strip i)) = Some job"
  shows "update_job float db i s d sal n =
           (app_update_job db (int_of (strip i))
              (if strip s = [] then status job else Some (strip s))
              (if strip d = [] then applied_date job else Some (strip d))
              (if strip sal = [] then read_real (salary job)
               else case float (strip sal) of Some v \<Rightarrow> Some v | None \<Rightarrow> read_real (salary job))
              (if strip n = [] then notes job else Some (strip n)),
            (if strip sal \<noteq> [] \<and> float (strip sal) = None then [InvalidSalaryKeptOld] else [])
              @ [JobUpdated])"
  using assms by (auto simp: update_job_def Let_def split: option.splits)

lemma page_manage_jobs_save:
  assumes "get_job_by_id db k = Some job"
  shows "page_manage_jobs float db k s d sal n SaveChanges =
           (app_update_job db k (Some s) (Some (strip d))
              (if strip sal = [] then None
               else case float (strip sal) of Some v \<Rightarrow> Some v | None \<Rightarrow> read_real (salary job))
              (Some (strip n)),
            (if strip sal \<noteq> [] \<and> float (strip sal) = None then [InvalidSalaryKeptOld] else [])
              @ [JobUpdated])"
proof -
  from assms have "job_id job = k" and "jobs db \<noteq> []"
    by (auto dest: get_job_by_id_SomeD)
  with assms show ?thesis
    by (auto simp: page_manage_jobs_def fetch_all_jobs_Nil split: option.splits)
qed

subsection \<open>Folding case and matching patterns\<close>

text \<open>Neither folding leaves one of the letters A to Z behind, and Python's folding
  neither makes nor removes a wildcard.\<close>

lemmas fold_defs =
  lower_def lower_char_def LOWER_def LOWER_char_def translate_def
  ascii_upper_def ascii_lower_def latin1_upper_def latin1_lower_def

lemma map_of_zip_range: "map_of (zip ks vs) c = Some l \<Longrightarrow> l \<in> set vs"
  by (auto dest!: map_of_SomeD set_zip_rightD)

lemma map_of_zip_fresh: "c \<notin> set ks \<Longrightarrow> map_of (zip ks vs) c = None"
  by (auto simp: map_of_eq_None_iff dest: set_zip_leftD)

lemma translate_fixed: "c \<notin> set ups \<Longrightarrow> translate ups lows c = c"
  by (simp add: translate_def map_of_zip_fresh)

lemma small_not_capital:
  "c \<in> set (ascii_lower @ latin1_lower) \<Longrightarrow> c \<notin> set ascii_upper"
  by (auto simp: ascii_upper_def ascii_lower_def latin1_lower_def)

lemma translate_cases:
  assumes "length ups = length lows"
  shows "c \<notin> set ups \<and> translate ups lows c = c \<or> translate ups lows c \<in> set lows"
proof (cases "map_of (zip ups lows) c")
  case None
  have "c \<notin> set ups"
  proof
    assume "c \<in> set ups"
    with assms obtain y where "map_of (zip ups lows) c = Some y"
      by (subst (asm) map_of_zip_is_Some [of ups lows c]) blast+
    with None show False by (simp only: option.distinct)
  qed
  moreover from None have "translate ups lows c = c"
    unfolding translate_def by (simp only: option.case)
  ultimately show ?thesis by blast
next
  case (Some l)
  then have "translate ups lows c = l"
    unfolding translate_def by (simp only: option.case)
  moreover from Some have "l \<in> set lows"
    by (rule map_of_zip_range)
  ultimately show ?thesis by blast
qed

lemma lower_char_cases:
  "c \<notin> set (ascii_upper @ latin1_upper) \<and> lower_char c = c
   \<or> lower_char c \<in> set (ascii_lower @ latin1_lower)"
  unfolding lower_char_def
  by (rule translate_cases)
     (simp add: ascii_upper_def ascii_lower_def latin1_upper_def latin1_lower_def)

lemma LOWER_char_cases:
  "c \<notin> set ascii_upper \<and> LOWER_char c = c \<or> LOWER_char c \<in> set ascii_lower"
  unfolding LOWER_char_def
  by (rule translate_cases) (simp add: ascii_upper_def ascii_lower_def)

lemma lower_char_not_capital: "lower_char c \<notin> set ascii_upper"
proof -
  from lower_char_cases [of c] show ?thesis
  proof
    assume "c \<notin> set (ascii_upper @ latin1_upper) \<and> lower_char c = c"
    then show ?thesis by simp
  next
    assume "lower_char c \<in> set (ascii_lower @ latin1_lower)"
    then show ?thesis by (rule small_not_capital)
  qed
qed

lemma LOWER_char_not_capital: "LOWER_char c \<notin> set ascii_upper"
proof -
  from LOWER_char_cases [of c] show ?thesis
  proof
    assume "c \<notin> set ascii_upper \<and> LOWER_char c = c"
    then show ?thesis by simp
  next
    assume "LOWER_char c \<in> set ascii_lower"
    then have "LOWER_char c \<in> set (ascii_lower @ latin1_lower)" by simp
    then show ?thesis by (rule small_not_capital)
  qed
qed

lemma LOWER_char_fixed: "c \<notin> set ascii_upper \<Longrightarrow> LOWER_char c = c"
  by (simp add: LOWER_char_def translate_fixed)

lemma LOWER_lower: "LOWER (lower s) = lower s"
  by (induction s) (simp_all add: LOWER_def lower_def LOWER_char_fixed lower_char_not_capital)

lemma LOWER_idem: "LOWER (LOWER s) = LOWER s"
  by (induction s) (simp_all add: LOWER_def LOWER_char_fixed LOWER_char_not_capital)

lemma lower_char_wild:
  "lower_char c = CHR ''%'' \<longleftrightarrow> c = CHR ''%''" "lower_char c = CHR ''_'' \<longleftrightarrow> c = CHR ''_''"
proof -
  have no_small: "CHR ''%'' \<notin> set (ascii_lower @ latin1_lower)"
      "CHR ''_'' \<notin> set (ascii_lower @ latin1_lower)"
    by (simp_all add: ascii_lower_def latin1_lower_def)
  have no_capital: "CHR ''%'' \<notin> set (ascii_upper @ latin1_upper)"
      "CHR ''_'' \<notin> set (ascii_upper @ latin1_upper)"
    by (simp_all add: ascii_upper_def latin1_upper_def)
  have fixed: "lower_char (CHR ''%'') = CHR ''%''" "lower_char (CHR ''_'') = CHR ''_''"
    unfolding lower_char_def by (rule translate_fixed, rule no_capital)+
  from lower_char_cases [of c] no_small fixed
  show "lower_char c = CHR ''%'' \<longleftrightarrow> c = CHR ''%''" "lower_char c = CHR ''_'' \<longleftrightarrow> c = CHR ''_''"
    by metis+
qed

lemma set_lower_wild:
  "CHR ''%'' \<in> set (lower s) \<longleftrightarrow> CHR ''%'' \<in> set s"
  "CHR ''_'' \<in> set (lower s) \<longleftrightarrow> CHR ''_'' \<in> set s"
proof -
  have "CHR ''%'' = lower_char c \<longleftrightarrow> c = CHR ''%''"
    and "CHR ''_'' = lower_char c \<longleftrightarrow> c = CHR ''_''" for c
    using lower_char_wild [of c] by auto
  then show "CHR ''%'' \<in> set (lower s) \<longleftrightarrow> CHR ''%'' \<in> set s"
    and "CHR ''_'' \<in> set (lower s) \<longleftrightarrow> CHR ''_'' \<in> set s"
    by (auto simp: lower_def image_iff)
qed

text \<open>A pattern \<^verbatim>\<open>%keyword%\<close> whose keyword holds no wildcard matches the texts
  that contain the keyword, the letters A to Z compared without regard to case.\<close>

lemma like_percent: "like ''%'' s"
  by (induction s) simp_all

lemma like_literal_prefix:
  assumes "CHR ''%'' \<notin> set kw" and "CHR ''_'' \<notin> set kw"
  shows "like (kw @ ''%'') s \<longleftrightarrow> prefix (LOWER kw) (LOWER s)"
  using assms
proof (induction kw arbitrary: s)
  case Nil
  then show ?case by (simp add: like_percent LOWER_def)
next
  case (Cons p ps)
  then show ?case by (cases s) (auto simp: LOWER_def)
qed

lemma like_contains:
  assumes "CHR ''%'' \<notin> set kw" and "CHR ''_'' \<notin> set kw"
  shows "like (''%'' @ kw @ ''%'') s \<longleftrightarrow> sublist (LOWER kw) (LOWER s)"
proof (induction s)
  case Nil
  from assms show ?case by (cases kw) (auto simp: LOWER_def)
next
  case (Cons c cs)
  have "like (''%'' @ kw @ ''%'') (c # cs)
        \<longleftrightarrow> like (kw @ ''%'') (c # cs) \<or> like (''%'' @ kw @ ''%'') cs"
    by simp
  also have "\<dots> \<longleftrightarrow> prefix (LOWER kw) (LOWER (c # cs)) \<or> sublist (LOWER kw) (LOWER cs)"
    by (simp only: like_literal_prefix [OF assms] Cons.IH)
  also have "\<dots> \<longleftrightarrow> sublist (LOWER kw) (LOWER (c # cs))"
    by (simp add: LOWER_def sublist_Cons_right)
  finally show ?case .
qed

lemma like_keyword:
  assumes "CHR ''%'' \<notin> set kw" and "CHR ''_'' \<notin> set kw"
  shows "like (''%'' @ lower kw @ ''%'') (LOWER s) \<longleftrightarrow> sublist (lower kw) (LOWER s)"
  using like_contains [of "lower kw" "LOWER s"] assms
  by (simp add: set_lower_wild LOWER_lower LOWER_idem)

subsection \<open>Filtering by status\<close>

lemma listing_of_status: "listing_of j = listing_of j' \<Longrightarrow> status j = status j'"
  by (simp add: listing_of_def)

lemma view_by_status_query:
  "strip q \<noteq> [] \<Longrightarrow>
   view_by_status db q =
     Some (map listing_of
       (filter (\<lambda>j. case status j of None \<Rightarrow> False | Some s \<Rightarrow> LOWER s = lower (strip q))
          (jobs db)))"
  by (simp add: view_by_status_def Let_def)

lemma listed_iff:
  assumes "j \<in> set xs"
  shows "listing_of j \<in> set (map listing_of
            (filter (\<lambda>j. case status j of None \<Rightarrow> False | Some s \<Rightarrow> LOWER s = t) xs))
         \<longleftrightarrow> (\<exists>s. status j = Some s \<and> LOWER s = t)"
proof
  assume "listing_of j \<in> set (map listing_of
            (filter (\<lambda>j. case status j of None \<Rightarrow> False | Some s \<Rightarrow> LOWER s = t) xs))"
  then obtain j' where j': "listing_of j' = listing_of j"
      "case status j' of None \<Rightarrow> False | Some s \<Rightarrow> LOWER s = t"
    by auto
  from j'(1) have "status j' = status j"
    by (rule listing_of_status)
  with j'(2) show "\<exists>s. status j = Some s \<and> LOWER s = t"
    by (cases "status j") simp_all
next
  assume "\<exists>s. status j = Some s \<and> LOWER s = t"
  with assms show "listing_of j \<in> set (map listing_of
            (filter (\<lambda>j. case status j of None \<Rightarrow> False | Some s \<Rightarrow> LOWER s = t) xs))"
    by (auto intro!: image_eqI [where x = j])
qed

lemma strip_Nil: "strip [] = []"
  by (simp add: strip_def)

subsection \<open>Counting by status\<close>

lemma sum_list_indicator:
  "distinct ks \<Longrightarrow> sum_list (map (\<lambda>k. if a = k then 1 else 0) ks) = (if a \<in> set ks then 1 else (0::nat))"
  by (induction ks) auto

lemma group_counts_sum:
  "distinct ks \<Longrightarrow> f ` set xs \<subseteq> set ks \<Longrightarrow>
   sum_list (map (\<lambda>k. length (filter (\<lambda>j. f j = k) xs)) ks) = length xs"
proof (induction xs)
  case Nil
  then show ?case by simp
next
  case (Cons x xs)
  have "sum_list (map (\<lambda>k. length (filter (\<lambda>j. f j = k) (x # xs))) ks)
      = sum_list (map (\<lambda>k. (if f x = k then 1 else 0) + length (filter (\<lambda>j. f j = k) xs)) ks)"
    by (intro arg_cong [where f = sum_list] map_cong) auto
  also have "\<dots> = sum_list (map (\<lambda>k. if f x = k then 1 else 0) ks)
                 + sum_list (map (\<lambda>k. length (filter (\<lambda>j. f j = k) xs)) ks)"
    by (simp add: sum_list_addf)
  also have "\<dots> = 1 + length xs"
    using Cons by (simp add: sum_list_indicator)
  finally show ?case by simp
qed

lemma status_counts_sum: "sum_list (map snd (status_counts db)) = length (jobs db)"
proof -
  have "map snd (status_counts db)
      = map (\<lambda>k. length (filter (\<lambda>j. status j = k) (jobs db))) (remdups (map status (jobs db)))"
    by (simp add: status_counts_def comp_def)
  then show ?thesis
    by (simp add: group_counts_sum)
qed

lemma show_stats_lines:
  "show_stats db = (length (jobs db), map (\<lambda>(s, count). (status_label s, count)) (status_counts db))"
  by (simp add: show_stats_def Let_def status_counts_def)

subsection \<open>Ordering and searching\<close>

lemma two_db_rows:
  "two_db = \<lparr>jobs = [\<lparr>job_id = 1, company = ''Acme Corp'', role = ''Engineer'',
                       location = Some ''Pune'', applied_date = Some ''2025-11-30'',
                       status = Some ''Interview'', salary = Some 50000,
                       notes = Some ''''\<rparr>,
                     \<lparr>job_id = 2, company = ''Globex'', role = ''Clerk'',
                       location = Some '''', applied_date = Some '''',
                       status = Some ''interview'', salary = None,
                       notes = Some ''''\<rparr>],
             sqlite_sequence = 2\<rparr>"
proof -
  have "strip ''interview'' = ''interview''"
    by (simp add: strip_def is_space_def)
  moreover have "next_rowid acme_db = 2"
    by (simp add: acme_db_rows next_rowid_def)
  ultimately show ?thesis
    by (simp add: two_db_def add_job_def insert_job_def Let_def strip_examples)
       (simp add: acme_db_rows)
qed

lemma set_order_by_id_desc: "set (order_by_id_desc xs) = set xs"
  by (simp add: order_by_id_desc_def)

lemma order_by_id_desc_sorted: "sorted_wrt (\<ge>) (map job_id (order_by_id_desc xs))"
proof -
  have "sorted (map job_id (sort_key job_id xs))"
    by (rule sorted_sort_key)
  then have "sorted_wrt (\<ge>) (rev (map job_id (sort_key job_id xs)))"
    by (simp add: sorted_wrt_rev)
  then show ?thesis
    by (simp add: order_by_id_desc_def rev_map)
qed

lemma map_fst_listing_of: "map fst (map listing_of xs) = map job_id xs"
  by (simp add: listing_of_def comp_def)

lemma lower_Nil_iff: "lower s = [] \<longleftrightarrow> s = []"
  by (simp add: lower_def)

lemma search_jobs_query:
  "strip kw \<noteq> [] \<Longrightarrow>
   search_jobs db kw =
     Some (map listing_of
       (order_by_id_desc
          (filter (search_where (''%'' @ lower (strip kw) @ ''%'')) (jobs db))))"
  by (simp add: search_jobs_def Let_def lower_Nil_iff)

lemma listing_of_searched:
  "listing_of j = listing_of j' \<Longrightarrow>
   company j = company j' \<and> role j = role j' \<and> location j = location j'"
  by (simp add: listing_of_def)

lemma listed_filter_iff:
  assumes "\<And>j j'. listing_of j = listing_of j' \<Longrightarrow> P j = P j'" and "j \<in> set xs"
  shows "listing_of j \<in> listing_of ` {x \<in> set xs. P x} \<longleftrightarrow> P j"
proof
  assume "listing_of j \<in> listing_of ` {x \<in> set xs. P x}"
  then obtain j' where "listing_of j = listing_of j'" and "P j'"
    by blast
  then show "P j"
    using assms(1) by blast
next
  assume "P j"
  with assms(2) show "listing_of j \<in> listing_of ` {x \<in> set xs. P x}"
    by blast
qed

lemma search_where_listing:
    "search_where pat j' = search_where pat j" if "listing_of j' = listing_of j" for j j'
proof -
  from that have "company j' = company j" "role j' = role j" "location j' = location j"
    using listing_of_searched [OF that] by simp_all
  then show ?thesis
    by (simp only: search_where_def)
qed

section \<open>Claims\<close>

text \<open>
  C1, as amended. When the company and the role are not empty after trimming, a create
  followed by a read of the new id gives back the record as it was typed, every text
  field trimmed. An optional text field that was left blank is read back as the empty
  string, not as null. Only the salary is read back as null: when its token is blank,
  when it is no number, and when it is not-a-number; otherwise it is the number the
  token stands for. The dashboard's create stores what the menu's create stores.
\<close>

theorem create_then_read:
  assumes "strip c \<noteq> []" and "strip r \<noteq> []"
  shows "get_job_by_id (fst (add_job float db c r l d s sal n)) (next_rowid db) =
           Some \<lparr>job_id = next_rowid db, company = strip c, role = strip r,
                 location = Some (strip l), applied_date = Some (strip d),
                 status = Some (strip s),
                 salary = (if strip sal = [] then None else bind_real (float (strip sal))),
                 notes = Some (strip n)\<rparr>
       \<and> page_add_job float db True c r l d s sal n = add_job float db c r l d s sal n"
  using assms
  by (auto simp: add_job_def Let_def get_job_by_id_insert_job page_add_job_submitted
      split: option.splits)

text \<open>
  A create in the empty database with the location, the date, the status and the notes
  left blank, read back under the id 1.
\<close>

theorem create_then_read_witness:
  "strip ''  Acme Corp'' \<noteq> [] \<and> strip ''Engineer '' \<noteq> []
   \<and> get_job_by_id
       (fst (add_job float_ex create_table ''  Acme Corp'' ''Engineer '' '''' '''' '''' ''50000'' ''''))
       1 =
     Some \<lparr>job_id = 1, company = ''Acme Corp'', role = ''Engineer'', location = Some '''',
           applied_date = Some '''', status = Some '''', salary = Some 50000, notes = Some ''''\<rparr>"
proof -
  have h: "strip ''  Acme Corp'' \<noteq> []" "strip ''Engineer '' \<noteq> []"
    by (simp_all add: strip_examples)
  show ?thesis
    using h create_then_read [OF h, of float_ex create_table "''''" "''''" "''''" "''50000''" "''''"]
    by (simp add: strip_examples next_rowid_create_table float_ex_def)
qed

text \<open>
  C1 as stated fails: it promises null for every optional field left unset, and the
  location that was left blank is read back as the empty string.
\<close>

theorem create_unset_text_not_null_counterexample:
  "map_option location
     (get_job_by_id
        (fst (add_job float_ex create_table ''Acme Corp'' ''Engineer'' '''' '''' '''' '''' '''')) 1)
     = Some (Some '''')
   \<and> map_option location
     (get_job_by_id
        (fst (add_job float_ex create_table ''Acme Corp'' ''Engineer'' '''' '''' '''' '''' '''')) 1)
     \<noteq> Some None"
  by (simp add: add_job_def insert_job_def get_job_by_id_def Let_def strip_def is_space_def
      next_rowid_def create_table_def)

text \<open>
  C2. Let the salary token be present and no number. A create with valid company and
  role then goes through, tells the user that the invalid salary is saved as empty, and
  the new record's salary is null. An update of a job that exists goes through as well,
  tells the user that the old salary is kept, and the record's salary after the update
  is the salary it had before, whatever that was. The same holds for the dashboard's
  create and for its save of changes.
\<close>

theorem unparseable_salary_token:
  assumes tok: "strip sal \<noteq> []" "float (strip sal) = None"
  shows "(strip c \<noteq> [] \<and> strip r \<noteq> [] \<longrightarrow>
            snd (add_job float db c r l d s sal n) = [InvalidSalarySavedEmpty, JobSaved]
            \<and> map_option salary
                (get_job_by_id (fst (add_job float db c r l d s sal n)) (next_rowid db)) = Some None
            \<and> page_add_job float db True c r l d s sal n = add_job float db c r l d s sal n)
       \<and> (isdigit (strip i) \<and> get_job_by_id db (int_of (strip i)) = Some job \<longrightarrow>
            snd (update_job float db i s' d' sal n') = [InvalidSalaryKeptOld, JobUpdated]
            \<and> map_option salary
                (get_job_by_id (fst (update_job float db i s' d' sal n')) (int_of (strip i)))
                = Some (salary job))
       \<and> (get_job_by_id db k = Some job' \<longrightarrow>
            snd (page_manage_jobs float db k s' d' sal n' SaveChanges)
              = [InvalidSalaryKeptOld, JobUpdated]
            \<and> map_option salary
                (get_job_by_id (fst (page_manage_jobs float db k s' d' sal n' SaveChanges)) k)
                = Some (salary job'))"
proof (intro conjI impI)
  assume valid: "strip c \<noteq> [] \<and> strip r \<noteq> []"
  with tok have created: "add_job float db c r l d s sal n =
      (insert_job db (strip c) (strip r) (Some (strip l)) (Some (strip d)) (Some (strip s)) None
         (Some (strip n)),
       [InvalidSalarySavedEmpty, JobSaved])"
    by (simp add: add_job_def Let_def)
  show "snd (add_job float db c r l d s sal n) = [InvalidSalarySavedEmpty, JobSaved]"
    by (simp add: created)
  show "map_option salary
          (get_job_by_id (fst (add_job float db c r l d s sal n)) (next_rowid db)) = Some None"
    by (simp add: created get_job_by_id_insert_job)
  show "page_add_job float db True c r l d s sal n = add_job float db c r l d s sal n"
    by (rule page_add_job_submitted)
next
  assume found: "isdigit (strip i) \<and> get_job_by_id db (int_of (strip i)) = Some job"
  then have k: "job_id job = int_of (strip i)"
    by (auto dest: get_job_by_id_SomeD)
  from found have upd: "update_job float db i s' d' sal n' =
      (app_update_job db (int_of (strip i))
         (if strip s' = [] then status job else Some (strip s'))
         (if strip d' = [] then applied_date job else Some (strip d'))
         (read_real (salary job))
         (if strip n' = [] then notes job else Some (strip n')),
       [InvalidSalaryKeptOld, JobUpdated])"
    using tok by (simp add: update_job_found)
  show "snd (update_job float db i s' d' sal n') = [InvalidSalaryKeptOld, JobUpdated]"
    by (simp add: upd)
  show "map_option salary
          (get_job_by_id (fst (update_job float db i s' d' sal n')) (int_of (strip i)))
          = Some (salary job)"
    using found k by (simp add: upd get_job_by_id_app_update_job bind_read_real)
next
  assume found: "get_job_by_id db k = Some job'"
  then have k: "job_id job' = k"
    by (simp add: get_job_by_id_SomeD)
  have save: "page_manage_jobs float db k s' d' sal n' SaveChanges =
      (app_update_job db k (Some s') (Some (strip d')) (read_real (salary job'))
         (Some (strip n')),
       [InvalidSalaryKeptOld, JobUpdated])"
    using tok by (simp add: page_manage_jobs_save [OF found])
  show "snd (page_manage_jobs float db k s' d' sal n' SaveChanges)
          = [InvalidSalaryKeptOld, JobUpdated]"
    by (simp add: save)
  show "map_option salary
          (get_job_by_id (fst (page_manage_jobs float db k s' d' sal n' SaveChanges)) k)
          = Some (salary job')"
    using found k by (simp add: save get_job_by_id_app_update_job bind_read_real)
qed

text \<open>
  The token \<^verbatim>\<open>abc\<close> on the database with one job, whose salary is 50000.
\<close>

theorem unparseable_salary_token_witness:
  "strip ''abc'' \<noteq> [] \<and> float_ex (strip ''abc'') = None
   \<and> strip ''Globex'' \<noteq> [] \<and> strip ''Clerk'' \<noteq> []
   \<and> isdigit (strip ''1'') \<and> get_job_by_id acme_db (int_of (strip ''1'')) \<noteq> None
   \<and> snd (add_job float_ex acme_db ''Globex'' ''Clerk'' '''' '''' ''Offer'' ''abc'' '''')
       = [InvalidSalarySavedEmpty, JobSaved]
   \<and> map_option salary
       (get_job_by_id (fst (add_job float_ex acme_db ''Globex'' ''Clerk'' '''' '''' ''Offer'' ''abc'' ''''))
          2) = Some None
   \<and> snd (update_job float_ex acme_db ''1'' ''Offer'' '''' ''abc'' '''')
       = [InvalidSalaryKeptOld, JobUpdated]
   \<and> map_option salary
       (get_job_by_id (fst (update_job float_ex acme_db ''1'' ''Offer'' '''' ''abc'' '''')) 1)
       = Some (Some 50000)
   \<and> map_option salary
       (get_job_by_id (fst (page_manage_jobs float_ex acme_db 1 ''Offer'' '''' ''abc'' '''' SaveChanges))
          1)
       = Some (Some 50000)"
proof -
  have tok: "strip ''abc'' \<noteq> []" "float_ex (strip ''abc'') = None"
    by (simp_all add: strip_examples float_ex_def)
  have valid: "strip ''Globex'' \<noteq> []" "strip ''Clerk'' \<noteq> []"
    by (simp_all add: strip_examples)
  have one: "int_of (strip ''1'') = 1" "isdigit (strip ''1'')"
    by (simp_all add: strip_examples int_of_def isdigit_def is_digit_char_def)
  have found: "get_job_by_id acme_db 1 =
      Some \<lparr>job_id = 1, company = ''Acme Corp'', role = ''Engineer'',
            location = Some ''Pune'', applied_date = Some ''2025-11-30'',
            status = Some ''Interview'', salary = Some 50000, notes = Some ''''\<rparr>"
    by (simp add: acme_db_rows get_job_by_id_def)
  have next2: "next_rowid acme_db = 2"
    by (simp add: acme_db_rows next_rowid_def)
  show ?thesis
    using tok valid one found
      unparseable_salary_token [where float = float_ex and sal = "''abc''" and c = "''Globex''"
        and r = "''Clerk''" and i = "''1''" and db = acme_db and l = "''''" and d = "''''"
        and s = "''Offer''" and n = "''''" and s' = "''Offer''" and d' = "''''" and n' = "''''"
        and k = 1 and job = "\<lparr>job_id = 1, company = ''Acme Corp'', role = ''Engineer'',
            location = Some ''Pune'', applied_date = Some ''2025-11-30'',
            status = Some ''Interview'', salary = Some 50000, notes = Some ''''\<rparr>"
        and job' = "\<lparr>job_id = 1, company = ''Acme Corp'', role = ''Engineer'',
            location = Some ''Pune'', applied_date = Some ''2025-11-30'',
            status = Some ''Interview'', salary = Some 50000, notes = Some ''''\<rparr>",
        OF tok]
    by (simp add: next2)
qed

text \<open>
  C3. When the company or the role is empty after trimming, a create is refused
  with the message that both are required, and the database it returns is the
  database it was given: no row is added and none is changed. This holds for the
  menu's \<open>add_job\<close> and, once the form is submitted, for the dashboard's
  \<open>page_add_job\<close>.
\<close>

theorem create_rejects_blank_required:
  assumes "strip c = [] \<or> strip r = []"
  shows "add_job float db c r l d s sal n = (db, [CompanyRoleRequired])
       \<and> page_add_job float db True c r l d s sal n = (db, [CompanyRoleRequired])"
  using assms by (auto simp: add_job_def page_add_job_def Let_def)

text \<open>
  The refusal at the blank company name, in an empty database.
\<close>

theorem create_rejects_blank_required_witness:
  "strip ''   '' = []
   \<and> add_job (\<lambda>t. None :: int pyfloat option) create_table ''   '' ''Engineer'' '''' '''' ''Applied''
       ''50000'' '''' = (create_table, [CompanyRoleRequired])
   \<and> page_add_job (\<lambda>t. None :: int pyfloat option) create_table True ''   '' ''Engineer'' '''' ''''
       ''Applied'' ''50000'' '''' = (create_table, [CompanyRoleRequired])"
proof -
  have h: "strip ''   '' = []"
    by (simp add: strip_def is_space_def)
  show ?thesis
    using h create_rejects_blank_required [of "''   ''" "''Engineer''"] by simp
qed

text \<open>
  C4, as amended. In the menu's update of a job that exists, each of the status, the
  applied date, the salary and the notes keeps its previous value when its own input is
  blank, whatever the other three inputs are. The dashboard's save of changes does not
  keep: it stores the values of its widgets, so a blank date and blank notes are stored
  as the empty string and a blank salary as null.
\<close>

theorem update_blank_keeps:
  assumes "isdigit (strip i)" and "get_job_by_id db (int_of (strip i)) = Some job"
  shows "(\<exists>job'. get_job_by_id (fst (update_job float db i s d sal n)) (int_of (strip i)) = Some job'
            \<and> (strip s = [] \<longrightarrow> status job' = status job)
            \<and> (strip d = [] \<longrightarrow> applied_date job' = applied_date job)
            \<and> (strip sal = [] \<longrightarrow> salary job' = salary job)
            \<and> (strip n = [] \<longrightarrow> notes job' = notes job))
       \<and> (\<exists>job'. get_job_by_id
                     (fst (page_manage_jobs float db (int_of (strip i)) s d sal n SaveChanges))
                     (int_of (strip i)) = Some job'
            \<and> status job' = Some s
            \<and> applied_date job' = Some (strip d)
            \<and> (strip sal = [] \<longrightarrow> salary job' = None)
            \<and> notes job' = Some (strip n))"
proof -
  have k: "job_id job = int_of (strip i)"
    using assms(2) by (simp add: get_job_by_id_SomeD)
  show ?thesis
    using assms(2) k
    by (simp add: update_job_found [OF assms] page_manage_jobs_save [OF assms(2)]
        get_job_by_id_app_update_job bind_read_real)
qed

text \<open>
  The menu's update of job 1 with a new status and the three other inputs blank.
\<close>

theorem update_blank_keeps_witness:
  "isdigit (strip ''1'') \<and> get_job_by_id acme_db (int_of (strip ''1'')) \<noteq> None
   \<and> get_job_by_id (fst (update_job float_ex acme_db ''1'' ''Offer'' '''' '' '' '''')) 1 =
     Some \<lparr>job_id = 1, company = ''Acme Corp'', role = ''Engineer'',
           location = Some ''Pune'', applied_date = Some ''2025-11-30'',
           status = Some ''Offer'', salary = Some 50000, notes = Some ''''\<rparr>"
proof -
  have one: "int_of (strip ''1'') = 1" "isdigit (strip ''1'')"
    by (simp_all add: strip_examples int_of_def isdigit_def is_digit_char_def)
  have found: "get_job_by_id acme_db (int_of (strip ''1'')) =
      Some \<lparr>job_id = 1, company = ''Acme Corp'', role = ''Engineer'',
            location = Some ''Pune'', applied_date = Some ''2025-11-30'',
            status = Some ''Interview'', salary = Some 50000, notes = Some ''''\<rparr>"
    by (simp add: one acme_db_rows get_job_by_id_def)
  have blank: "strip '' '' = []"
    by (simp add: strip_def is_space_def)
  have after: "get_job_by_id (fst (update_job float_ex acme_db ''1'' ''Offer'' '''' '' '' '''')) 1 =
      Some \<lparr>job_id = 1, company = ''Acme Corp'', role = ''Engineer'',
            location = Some ''Pune'', applied_date = Some ''2025-11-30'',
            status = Some ''Offer'', salary = Some 50000, notes = Some ''''\<rparr>"
    by (simp add: acme_db_rows update_job_def Let_def get_job_by_id_def app_update_job_def
        strip_examples blank isdigit_def is_digit_char_def int_of_def read_real_def)
  show ?thesis
    using one found after
      update_blank_keeps [where float = float_ex and i = "''1''" and db = acme_db
        and s = "''Offer''" and d = "''''" and sal = "'' ''" and n = "''''", OF one(2) found]
    by simp
qed

text \<open>
  C4 as stated fails on the dashboard: job 1 has the salary 50000, and after a save
  with the salary widget blank it has none.
\<close>

theorem dashboard_blank_salary_counterexample:
  "map_option salary (get_job_by_id acme_db 1) = Some (Some 50000)
   \<and> map_option salary
       (get_job_by_id
          (fst (page_manage_jobs float_ex acme_db 1 ''Interview'' ''2025-11-30'' '''' '''' SaveChanges))
          1) = Some None"
  by (simp add: acme_db_rows page_manage_jobs_def fetch_all_jobs_def order_by_id_desc_def
      get_job_by_id_def app_update_job_def strip_examples)

text \<open>
  C5. No update changes the id, the company or the role of any record, nor its
  location: a read of any id before and after \<open>update_job\<close> of the menu, after the
  dashboard's save of changes and after the statement \<open>app_update_job\<close> itself gives
  the same four values, and finds a record exactly when it found one before.
\<close>

theorem update_keeps_identity:
  "map_option (\<lambda>j. (job_id j, company j, role j, location j))
     (get_job_by_id (fst (update_job float db i s d sal n)) k)
   = map_option (\<lambda>j. (job_id j, company j, role j, location j)) (get_job_by_id db k)
   \<and> map_option (\<lambda>j. (job_id j, company j, role j, location j))
     (get_job_by_id (fst (page_manage_jobs float db k' s d sal n SaveChanges)) k)
   = map_option (\<lambda>j. (job_id j, company j, role j, location j)) (get_job_by_id db k)
   \<and> map_option (\<lambda>j. (job_id j, company j, role j, location j))
     (get_job_by_id (app_update_job db k' st dt sl nt) k)
   = map_option (\<lambda>j. (job_id j, company j, role j, location j)) (get_job_by_id db k)"
proof -
  have upd: "map_option (\<lambda>j. (job_id j, company j, role j, location j))
               (get_job_by_id (app_update_job db x a b c e) k)
             = map_option (\<lambda>j. (job_id j, company j, role j, location j)) (get_job_by_id db k)"
    for x a b c e
    by (cases "get_job_by_id db k") (simp_all add: get_job_by_id_app_update_job)
  have cli: "map_option (\<lambda>j. (job_id j, company j, role j, location j))
               (get_job_by_id (fst (update_job float db i s d sal n)) k)
             = map_option (\<lambda>j. (job_id j, company j, role j, location j)) (get_job_by_id db k)"
  proof (cases "isdigit (strip i)")
    case False
    then show ?thesis by (simp add: update_job_def Let_def)
  next
    case True
    show ?thesis
    proof (cases "get_job_by_id db (int_of (strip i))")
      case None
      with True show ?thesis by (simp add: update_job_def Let_def)
    next
      case (Some job)
      show ?thesis by (simp add: update_job_found [OF True Some] upd)
    qed
  qed
  have dash: "map_option (\<lambda>j. (job_id j, company j, role j, location j))
                (get_job_by_id (fst (page_manage_jobs float db k' s d sal n SaveChanges)) k)
              = map_option (\<lambda>j. (job_id j, company j, role j, location j)) (get_job_by_id db k)"
  proof (cases "get_job_by_id db k'")
    case None
    then show ?thesis by (simp add: page_manage_jobs_def)
  next
    case (Some job)
    show ?thesis by (simp add: page_manage_jobs_save [OF Some] upd)
  qed
  show ?thesis
    using cli dash upd by simp
qed

text \<open>
  C6. The claim asks every listing to come newest first, the filter by status in
  particular. \<open>view_by_status\<close> is the one query with no \<^verbatim>\<open>ORDER BY id DESC\<close>: on
  the database with the jobs 1 and 2, both with the status interview, it lists job 1
  before job 2, while \<open>view_all_jobs\<close> lists job 2 first.
\<close>

theorem view_by_status_oldest_first:
  "map_option (map fst) (view_by_status two_db ''Interview'') = Some [1, 2]
   \<and> map_option (\<lambda>rows. sorted_wrt (>) (map fst rows)) (view_by_status two_db ''Interview'')
       = Some False
   \<and> map fst (view_all_jobs two_db) = [2, 1]"
  by (simp add: two_db_rows view_by_status_def view_all_jobs_def order_by_id_desc_def
      listing_of_def Let_def strip_examples fold_defs)

text \<open>
  C7. The claim asks \<open>view_by_status\<close> to return a record exactly when its status is
  the query, letters compared without regard to case. The code folds the query with
  Python's \<open>lower\<close> and the column with SQLite's \<open>LOWER\<close>, which leaves the capital
  letters beyond ASCII as they are. The record entered at the menu with the status
  \<^verbatim>\<open>REFUS\<close> and the capital E with acute accent (code point 0xC9) is therefore not
  found by the query that is its own status, nor by that query in small letters.
\<close>

theorem view_by_status_misses_own_status:
  "map_option status (get_job_by_id refuse_db 1) = Some (Some (''REFUS'' @ [CHR 0xC9]))
   \<and> view_by_status refuse_db (''REFUS'' @ [CHR 0xC9]) = Some []
   \<and> view_by_status refuse_db (''refus'' @ [CHR 0xE9]) = Some []
   \<and> lower (''REFUS'' @ [CHR 0xC9]) = ''refus'' @ [CHR 0xE9]
   \<and> LOWER (''REFUS'' @ [CHR 0xC9]) = ''refus'' @ [CHR 0xC9]"
proof -
  have q: "strip (''REFUS'' @ [CHR 0xC9]) = ''REFUS'' @ [CHR 0xC9]"
      "strip (''refus'' @ [CHR 0xE9]) = ''refus'' @ [CHR 0xE9]"
    by (simp_all add: strip_def is_space_def)
  have folds: "lower (''REFUS'' @ [CHR 0xC9]) = ''refus'' @ [CHR 0xE9]"
      "lower (''refus'' @ [CHR 0xE9]) = ''refus'' @ [CHR 0xE9]"
      "LOWER (''REFUS'' @ [CHR 0xC9]) = ''refus'' @ [CHR 0xC9]"
    by (simp_all add: fold_defs)
  have stored: "map_option status (get_job_by_id refuse_db 1) = Some (Some (''REFUS'' @ [CHR 0xC9]))"
    by (simp add: refuse_db_rows get_job_by_id_def)
  have "view_by_status refuse_db (''REFUS'' @ [CHR 0xC9]) = Some []"
    and "view_by_status refuse_db (''refus'' @ [CHR 0xE9]) = Some []"
    using folds q by (simp_all add: refuse_db_rows view_by_status_def Let_def)
  with stored folds show ?thesis by simp
qed

text \<open>
  C8. The claim asks \<open>search_jobs\<close> to return a record exactly when the keyword occurs
  in its company, role or location. The keyword goes into the \<^verbatim>\<open>LIKE\<close> pattern as it
  is, so the keyword \<^verbatim>\<open>_\<close> finds job 1 although no field of job 1 holds an
  underscore.
\<close>

theorem search_jobs_underscore:
  "map_option (map fst) (search_jobs acme_db ''_'') = Some [1]
   \<and> \<not> sublist (lower ''_'') (lower ''Acme Corp'')
   \<and> \<not> sublist (lower ''_'') (lower ''Engineer'')
   \<and> \<not> sublist (lower ''_'') (lower ''Pune'')"
proof -
  have "strip ''_'' = ''_''"
    by (simp add: strip_def is_space_def)
  then have "map_option (map fst) (search_jobs acme_db ''_'') = Some [1]"
    by (simp add: acme_db_rows search_jobs_def search_where_def order_by_id_desc_def
        listing_of_def Let_def fold_defs)
  moreover have "\<not> sublist (lower ''_'') (lower ''Acme Corp'')"
    and "\<not> sublist (lower ''_'') (lower ''Engineer'')"
    and "\<not> sublist (lower ''_'') (lower ''Pune'')"
    by (simp_all add: fold_defs sublist_Cons_right)
  ultimately show ?thesis by simp
qed

text \<open>
  C9. The total \<open>show_stats\<close> prints is the number of records, and the counts it
  prints by status add up to it. The lines are the groups of \<open>status_counts\<close> under
  their labels; the groups have different status values, and a pair of a value and a
  count is a group exactly when the count is the number of records with that value and
  is not zero. So the records without a status are counted in one group, the group of
  \<open>None\<close>, whose label is \<^verbatim>\<open>Unknown\<close>. (The group of the empty status, a group of
  its own, is printed under the same label.)
\<close>

theorem counts_by_status_partition:
  "fst (show_stats db) = length (jobs db)
   \<and> sum_list (map snd (snd (show_stats db))) = fst (show_stats db)
   \<and> snd (show_stats db) = map (\<lambda>(s, count). (status_label s, count)) (status_counts db)
   \<and> distinct (map fst (status_counts db))
   \<and> (\<forall>k c. (k, c) \<in> set (status_counts db)
          \<longleftrightarrow> c = length (filter (\<lambda>j. status j = k) (jobs db)) \<and> 0 < c)
   \<and> status_label None = ''Unknown''"
proof -
  have total: "fst (show_stats db) = length (jobs db)"
    by (simp add: show_stats_lines)
  have lines: "snd (show_stats db) = map (\<lambda>(s, count). (status_label s, count)) (status_counts db)"
    by (simp add: show_stats_lines)
  have "map snd (snd (show_stats db)) = map snd (status_counts db)"
    unfolding lines by (induction "status_counts db") (auto simp: case_prod_beta)
  then have sums: "sum_list (map snd (snd (show_stats db))) = fst (show_stats db)"
    by (simp only: total status_counts_sum)
  have keys: "distinct (map fst (status_counts db))"
    by (simp add: status_counts_def comp_def)
  have groups: "\<forall>k c. (k, c) \<in> set (status_counts db)
          \<longleftrightarrow> c = length (filter (\<lambda>j. status j = k) (jobs db)) \<and> 0 < c"
    by (auto simp: status_counts_def length_greater_0_conv filter_empty_conv
        simp del: length_greater_0_conv)
  have label: "status_label None = ''Unknown''"
    by (simp add: status_label_def)
  from total sums lines keys groups label show ?thesis
    by (intro conjI)
qed

text \<open>
  The three records of the scenario: one application, one offer, one without a status.
\<close>

theorem counts_by_status_partition_witness:
  "show_stats scenario_db = (3, [(''Applied'', 1), (''Offer'', 1), (''Unknown'', 1)])
   \<and> status_counts scenario_db = [(Some ''Applied'', 1), (Some ''Offer'', 1), (None, 1)]
   \<and> sum_list (map snd (snd (show_stats scenario_db))) = fst (show_stats scenario_db)"
proof -
  have counts: "status_counts scenario_db = [(Some ''Applied'', 1), (Some ''Offer'', 1), (None, 1)]"
    by (simp add: status_counts_def scenario_db_def)
  have three: "length (jobs scenario_db) = 3"
    by (simp add: scenario_db_def)
  have "fst (show_stats scenario_db) = 3"
    and "snd (show_stats scenario_db) = [(''Applied'', 1), (''Offer'', 1), (''Unknown'', 1)]"
    and "sum_list (map snd (snd (show_stats scenario_db))) = fst (show_stats scenario_db)"
    using counts_by_status_partition [of scenario_db]
    by (simp_all add: counts three status_label_def)
  then show ?thesis
    using counts by (simp add: prod_eq_iff)
qed

text \<open>
  C10. A stored record without a status is in no result of \<open>view_by_status\<close>, whatever
  the query is: the empty query runs no query at all, and every other query compares
  \<^verbatim>\<open>LOWER(status)\<close>, which is \<^verbatim>\<open>NULL\<close> for that record.
\<close>

theorem null_status_never_listed:
  assumes "j \<in> set (jobs db)" and "status j = None"
  shows "view_by_status db [] = None
       \<and> (\<forall>rows. view_by_status db q = Some rows \<longrightarrow> listing_of j \<notin> set rows)"
proof (intro conjI allI impI)
  show "view_by_status db [] = None"
    by (simp add: view_by_status_def strip_Nil)
next
  fix rows
  assume q: "view_by_status db q = Some rows"
  then have nonempty: "strip q \<noteq> []"
    by (auto simp: view_by_status_def Let_def split: if_splits)
  from q have rows: "rows = map listing_of
       (filter (\<lambda>j. case status j of None \<Rightarrow> False | Some s \<Rightarrow> LOWER s = lower (strip q))
          (jobs db))"
    by (simp add: view_by_status_query [OF nonempty])
  show "listing_of j \<notin> set rows"
    unfolding rows using assms by (simp only: listed_iff [OF assms(1)]) simp
qed

text \<open>
  The third record of the scenario has no status: the query \<^verbatim>\<open>unknown\<close> finds
  nothing, the query \<^verbatim>\<open>Offer\<close> finds the second record only, the empty query does
  not run.
\<close>

theorem null_status_never_listed_witness:
  "\<lparr>job_id = 3, company = ''Globex'', role = ''Clerk'', location = None, applied_date = None,
     status = None, salary = None, notes = None\<rparr> \<in> set (jobs scenario_db)
   \<and> view_by_status scenario_db ''unknown'' = Some []
   \<and> view_by_status scenario_db ''Offer'' =
       Some [(2, ''Acme'', ''Manager'', None, None, Some ''Offer'', None)]
   \<and> view_by_status scenario_db '''' = None"
proof -
  have member: "\<lparr>job_id = 3, company = ''Globex'', role = ''Clerk'', location = None,
       applied_date = None, status = None, salary = (None :: int option), notes = None\<rparr>
       \<in> set (jobs scenario_db)"
    by (simp add: scenario_db_def)
  have q: "strip ''unknown'' = ''unknown''" "strip ''Offer'' = ''Offer''"
    by (simp_all add: strip_def is_space_def)
  have "view_by_status scenario_db ''unknown'' = Some []"
    and "view_by_status scenario_db ''Offer'' =
       Some [(2, ''Acme'', ''Manager'', None, None, Some ''Offer'', None)]"
    and "view_by_status scenario_db '''' = None"
    using null_status_never_listed [OF member, of "''unknown''"]
    by (simp_all add: q strip_Nil scenario_db_def view_by_status_def listing_of_def Let_def
        fold_defs)
  with member show ?thesis by simp
qed

section \<open>Further properties\<close>

text \<open>
  What \<open>view_by_status\<close> does return: for a query that is not empty after trimming it
  runs its query, returns only rows of the table, and returns a stored record exactly
  when the record has a status whose \<open>LOWER\<close> is the \<open>lower\<close> of the trimmed query. The
  whole value is compared, not a part of it. On a query without capital letters beyond
  ASCII the two foldings of the query agree.
\<close>

theorem view_by_status_listed_iff:
  assumes "strip q \<noteq> []"
  shows "\<exists>rows. view_by_status db q = Some rows
           \<and> set rows \<subseteq> listing_of ` set (jobs db)
           \<and> (\<forall>j \<in> set (jobs db).
                 listing_of j \<in> set rows \<longleftrightarrow> (\<exists>s. status j = Some s \<and> LOWER s = lower (strip q)))"
proof (intro exI conjI ballI)
  show "view_by_status db q = Some (map listing_of
       (filter (\<lambda>j. case status j of None \<Rightarrow> False | Some s \<Rightarrow> LOWER s = lower (strip q))
          (jobs db)))"
    using assms by (rule view_by_status_query)
  show "set (map listing_of
       (filter (\<lambda>j. case status j of None \<Rightarrow> False | Some s \<Rightarrow> LOWER s = lower (strip q))
          (jobs db))) \<subseteq> listing_of ` set (jobs db)"
    by auto
  show "listing_of j \<in> set (map listing_of
       (filter (\<lambda>j. case status j of None \<Rightarrow> False | Some s \<Rightarrow> LOWER s = lower (strip q))
          (jobs db)))
       \<longleftrightarrow> (\<exists>s. status j = Some s \<and> LOWER s = lower (strip q))"
    if "j \<in> set (jobs db)" for j
    using that by (rule listed_iff)
qed

text \<open>
  The record with the status \<^verbatim>\<open>Interview\<close> is found by the query
  \<^verbatim>\<open>interview\<close> and not by the query \<^verbatim>\<open>Interv\<close>.
\<close>

theorem view_by_status_listed_iff_witness:
  "strip ''interview'' \<noteq> [] \<and> strip ''Interv'' \<noteq> []
   \<and> view_by_status acme_db ''interview'' =
       Some [(1, ''Acme Corp'', ''Engineer'', Some ''Pune'', Some ''2025-11-30'',
              Some ''Interview'', Some 50000)]
   \<and> view_by_status acme_db ''Interv'' = Some []"
proof -
  have q: "strip ''interview'' = ''interview''" "strip ''Interv'' = ''Interv''"
    by (simp_all add: strip_def is_space_def)
  then have h: "strip ''interview'' \<noteq> []" "strip ''Interv'' \<noteq> []"
    by simp_all
  have "view_by_status acme_db ''interview'' =
       Some [(1, ''Acme Corp'', ''Engineer'', Some ''Pune'', Some ''2025-11-30'',
              Some ''Interview'', Some 50000)]"
    and "view_by_status acme_db ''Interv'' = Some []"
    using view_by_status_listed_iff [OF h(1), of acme_db]
      view_by_status_listed_iff [OF h(2), of acme_db]
    by (simp_all add: q acme_db_rows view_by_status_def listing_of_def Let_def fold_defs)
  with h show ?thesis by simp
qed

text \<open>
  The listings that do order by id: \<open>view_all_jobs\<close>, \<open>fetch_all_jobs\<close>,
  \<open>search_jobs\<close> and \<open>export_to_csv\<close> give their rows by descending id.
\<close>

theorem listings_newest_first:
  "sorted_wrt (\<ge>) (map fst (view_all_jobs db))
   \<and> sorted_wrt (\<ge>) (map job_id (fetch_all_jobs db))
   \<and> (\<forall>rows. search_jobs db kw = Some rows \<longrightarrow> sorted_wrt (\<ge>) (map fst rows))
   \<and> (\<forall>rows. export_to_csv db = Some rows \<longrightarrow> sorted_wrt (\<ge>) (map job_id rows))"
proof (intro conjI allI impI)
  show "sorted_wrt (\<ge>) (map fst (view_all_jobs db))"
    by (simp only: view_all_jobs_def map_fst_listing_of order_by_id_desc_sorted)
  show "sorted_wrt (\<ge>) (map job_id (fetch_all_jobs db))"
    by (simp only: fetch_all_jobs_def order_by_id_desc_sorted)
next
  fix rows
  assume "search_jobs db kw = Some rows"
  then obtain xs where "rows = map listing_of (order_by_id_desc xs)"
    by (auto simp: search_jobs_def Let_def split: if_splits)
  then show "sorted_wrt (\<ge>) (map fst rows)"
    by (simp only: map_fst_listing_of order_by_id_desc_sorted)
next
  fix rows
  assume "export_to_csv db = Some rows"
  then have "rows = order_by_id_desc (jobs db)"
    by (auto simp: export_to_csv_def Let_def split: if_splits)
  then show "sorted_wrt (\<ge>) (map job_id rows)"
    by (simp only: order_by_id_desc_sorted)
qed

text \<open>
  The scenario's records are listed and exported as 3, 2, 1.
\<close>

theorem listings_newest_first_witness:
  "map fst (view_all_jobs scenario_db) = [3, 2, 1]
   \<and> map_option (map job_id) (export_to_csv scenario_db) = Some [3, 2, 1]
   \<and> sorted_wrt (\<ge>) (map fst (view_all_jobs scenario_db))"
  using listings_newest_first [of scenario_db]
  by (simp add: scenario_db_def view_all_jobs_def export_to_csv_def order_by_id_desc_def
      listing_of_def Let_def)

text \<open>
  For a keyword with neither \<^verbatim>\<open>%\<close> nor \<^verbatim>\<open>_\<close> in it, \<open>search_jobs\<close> returns a
  stored record exactly when the keyword, folded by \<open>lower\<close>, is a contiguous part of
  the company, of the role or of the location, each folded by \<open>LOWER\<close>, where a
  \<^verbatim>\<open>NULL\<close> location has no part. On ASCII text that is the keyword occurring without
  regard to case.
\<close>

theorem search_jobs_literal_keyword:
  assumes "strip kw \<noteq> []" and "CHR ''%'' \<notin> set (strip kw)" and "CHR ''_'' \<notin> set (strip kw)"
  shows "\<exists>rows. search_jobs db kw = Some rows
           \<and> set rows \<subseteq> listing_of ` set (jobs db)
           \<and> (\<forall>j \<in> set (jobs db).
                 listing_of j \<in> set rows \<longleftrightarrow>
                   sublist (lower (strip kw)) (LOWER (company j))
                   \<or> sublist (lower (strip kw)) (LOWER (role j))
                   \<or> (\<exists>l. location j = Some l \<and> sublist (lower (strip kw)) (LOWER l)))"
proof (intro exI conjI ballI)
  let ?pat = "''%'' @ lower (strip kw) @ ''%''"
  show rows: "search_jobs db kw = Some (map listing_of (order_by_id_desc (filter (search_where ?pat) (jobs db))))"
    using assms(1) by (rule search_jobs_query)
  show "set (map listing_of (order_by_id_desc (filter (search_where ?pat) (jobs db)))) \<subseteq> listing_of ` set (jobs db)"
    by (auto simp: set_order_by_id_desc)
  fix j :: "'a job"
  assume j: "j \<in> set (jobs db)"
  have "set (map listing_of (order_by_id_desc (filter (search_where ?pat) (jobs db))))
        = listing_of ` {x \<in> set (jobs db). search_where ?pat x}"
    by (simp add: set_order_by_id_desc)
  then have "listing_of j \<in> set (map listing_of (order_by_id_desc (filter (search_where ?pat) (jobs db))))
        \<longleftrightarrow> search_where ?pat j"
    using listed_filter_iff [of "search_where ?pat" j "jobs db", OF search_where_listing j] by (simp only:)
  also have "\<dots> \<longleftrightarrow> sublist (lower (strip kw)) (LOWER (company j))
                   \<or> sublist (lower (strip kw)) (LOWER (role j))
                   \<or> (\<exists>l. location j = Some l \<and> sublist (lower (strip kw)) (LOWER l))"
    unfolding search_where_def
    by (cases "location j") (simp_all only: like_keyword [OF assms(2,3)] option.case, simp_all)
  finally show "listing_of j \<in> set (map listing_of (order_by_id_desc (filter (search_where ?pat) (jobs db))))
        \<longleftrightarrow> sublist (lower (strip kw)) (LOWER (company j))
                   \<or> sublist (lower (strip kw)) (LOWER (role j))
                   \<or> (\<exists>l. location j = Some l \<and> sublist (lower (strip kw)) (LOWER l))" .
qed

text \<open>
  The scenario's search for \<^verbatim>\<open>acme\<close>: the records 2 and 1, in this order.
\<close>

theorem search_jobs_literal_keyword_witness:
  "strip ''acme'' \<noteq> [] \<and> CHR ''%'' \<notin> set (strip ''acme'') \<and> CHR ''_'' \<notin> set (strip ''acme'')
   \<and> map_option (map fst) (search_jobs scenario_db ''acme'') = Some [2, 1]"
proof -
  have q: "strip ''acme'' = ''acme''"
    by (simp add: strip_def is_space_def)
  then have h: "strip ''acme'' \<noteq> []" "CHR ''%'' \<notin> set (strip ''acme'')"
      "CHR ''_'' \<notin> set (strip ''acme'')"
    by simp_all
  have "map_option (map fst) (search_jobs scenario_db ''acme'') = Some [2, 1]"
    using search_jobs_literal_keyword [OF h, of scenario_db]
    by (simp add: q scenario_db_def search_jobs_def search_where_def order_by_id_desc_def
        listing_of_def Let_def fold_defs)
  with h show ?thesis by simp
qed

end
